theory Spec2Isabelle
  imports Complex_Main
begin

section \<open>Numbers, strings and the price oracle\<close>

text \<open>
  The executors compute in Python's \<^verbatim>\<open>Decimal\<close> and store the results in float columns,
  converting with \<^verbatim>\<open>Decimal(str(x))\<close> and \<^verbatim>\<open>float(d)\<close>. Every amount, price and quantity
  is an exact rational here: the conversions are the identity, and neither the rounding of a
  float nor that of a 28-digit Decimal is modelled. Timestamps are seconds as rationals.
\<close>

type_synonym amount = rat

text \<open>\<^verbatim>\<open>str.upper()\<close> on ASCII: a letter from a to z loses the bit that is worth 32.\<close>

fun upper_char :: "char \<Rightarrow> char" where
  "upper_char (Char b0 b1 b2 b3 b4 b5 b6 b7) =
     (let c = Char b0 b1 b2 b3 b4 b5 b6 b7
      in if (97::nat) \<le> of_char c \<and> of_char c \<le> (122::nat)
         then Char b0 b1 b2 b3 b4 False b6 b7 else c)"

definition upper :: "string \<Rightarrow> string" where
  "upper s = map upper_char s"

text \<open>\<^verbatim>\<open>int(d)\<close> of a Decimal truncates towards zero.\<close>

definition py_int :: "rat \<Rightarrow> int" where
  "py_int x = (if 0 \<le> x then \<lfloor>x\<rfloor> else \<lceil>x\<rceil>)"

text \<open>
  \<^verbatim>\<open>get_last_price(symbol, market)\<close> lives in \<^verbatim>\<open>services/market_data.py\<close>, an external
  collaborator: it returns a float, returns \<^verbatim>\<open>None\<close>, or raises. The oracle is a parameter
  of every function that calls it.
\<close>

datatype quote = Price rat | NoPrice | OracleRaises

type_synonym price_oracle = "string \<Rightarrow> string \<Rightarrow> quote"

text \<open>Every \<^verbatim>\<open>raise\<close> of the executors, and the exceptions of \<^verbatim>\<open>Decimal\<close> they can run into.\<close>

datatype error =
    LeverageOutOfRange
  | QuantityBelowMinimum
  | QuantityNotLotMultiple
  | OracleFailure
  | DecimalConversion
  | DecimalDivision
  | InsufficientCash
  | InsufficientCashForInterest
  | ConflictingPosition
  | NoPositionToClose
  | CloseSideMismatch
  | CloseExceedsPosition
  | SpotSellOnly
  | InsufficientPosition
  | InvalidSide

section \<open>Ledger\<close>

record account =
  acc_id :: nat
  current_cash :: amount
  margin_used :: amount
  maintenance_margin_ratio :: rat

record position =
  p_account_id :: nat
  p_symbol :: string
  p_name :: string
  p_market :: string
  p_quantity :: rat
  p_available_quantity :: rat
  p_avg_cost :: rat
  p_leverage :: int
  p_side :: "string option"
  p_accumulated_interest :: amount
  p_last_interest_time :: "rat option"

record order =
  o_account_id :: nat
  o_symbol :: string
  o_name :: string
  o_market :: string
  o_side :: string
  o_order_type :: string
  o_price :: "rat option"
  o_quantity :: rat
  o_leverage :: int
  o_filled_quantity :: rat
  o_status :: string

record trade =
  t_account_id :: nat
  t_symbol :: string
  t_name :: string
  t_market :: string
  t_side :: string
  t_price :: rat
  t_quantity :: rat
  t_commission :: amount
  t_taker_fee :: amount
  t_interest_charged :: amount

text \<open>
  The state an executor works on: the \<^verbatim>\<open>Account\<close> object it is handed and the rows of the
  session. \<^verbatim>\<open>order_no\<close> (a random uuid) and \<^verbatim>\<open>version\<close> are left out.
\<close>

record ledger =
  l_account :: account
  l_positions :: "position list"
  l_orders :: "order list"
  l_trades :: "trade list"

text \<open>
  An executor either returns after \<^verbatim>\<open>db.commit()\<close> or raises. It never rolls back, so a
  raise leaves the objects as they were mutated up to that line: \<open>Raised e s\<close> carries that
  state, none of which has been committed.
\<close>

datatype outcome = Returned ledger | Raised error ledger

fun final :: "outcome \<Rightarrow> ledger" where
  "final (Returned s) = s"
| "final (Raised e s) = s"

fun raised :: "outcome \<Rightarrow> error option" where
  "raised (Returned s) = None"
| "raised (Raised e s) = Some e"

text \<open>\<^verbatim>\<open>db.query(Position).filter(account_id, symbol, market).first()\<close>\<close>

definition is_row :: "nat \<Rightarrow> string \<Rightarrow> string \<Rightarrow> position \<Rightarrow> bool" where
  "is_row aid symbol market p \<longleftrightarrow>
     p_account_id p = aid \<and> p_symbol p = symbol \<and> p_market p = market"

definition query_position :: "position list \<Rightarrow> nat \<Rightarrow> string \<Rightarrow> string \<Rightarrow> position option" where
  "query_position ps aid symbol market = find (is_row aid symbol market) ps"

text \<open>Writing to the object the query returned changes the first matching row.\<close>

fun store_position :: "position list \<Rightarrow> nat \<Rightarrow> string \<Rightarrow> string \<Rightarrow> position \<Rightarrow> position list" where
  "store_position [] aid symbol market p' = []"
| "store_position (p # ps) aid symbol market p' =
     (if is_row aid symbol market p then p' # ps
      else p # store_position ps aid symbol market p')"

section \<open>Leveraged crypto: fee and interest\<close>

text \<open>
  The constants of \<^verbatim>\<open>database/models.py\<close>, which is not among the sources, are parameters.
\<close>

record params =
  CRYPTO_TAKER_FEE_RATE :: rat
  CRYPTO_INTEREST_RATE_HOURLY :: rat
  CRYPTO_MAX_LEVERAGE :: int
  CRYPTO_MIN_ORDER_QUANTITY :: rat

definition calc_crypto_fee :: "params \<Rightarrow> amount \<Rightarrow> int \<Rightarrow> amount" where
  "calc_crypto_fee prm notional leverage = notional * CRYPTO_TAKER_FEE_RATE prm"

definition calculate_position_interest :: "params \<Rightarrow> rat \<Rightarrow> position \<Rightarrow> amount" where
  "calculate_position_interest prm now pos =
     (case p_last_interest_time pos of
        None \<Rightarrow> 0
      | Some last_time \<Rightarrow>
          if p_leverage pos \<le> 1 then 0
          else
            let hours_elapsed = (now - last_time) / 3600;
                borrowed_notional =
                  p_quantity pos * p_avg_cost pos * (of_int (p_leverage pos) - 1)
                    / of_int (p_leverage pos)
            in borrowed_notional * CRYPTO_INTEREST_RATE_HOURLY prm * hours_elapsed)"

section \<open>Valuation\<close>




section \<open>The leveraged crypto executor\<close>

text \<open>Python truthiness of an optional float and of an optional string.\<close>

fun truthy_price :: "rat option \<Rightarrow> bool" where
  "truthy_price None = False"
| "truthy_price (Some p) = (p \<noteq> 0)"

fun truthy_side :: "string option \<Rightarrow> bool" where
  "truthy_side None = False"
| "truthy_side (Some s) = (s \<noteq> [])"

text \<open>
  \<^verbatim>\<open>Decimal(str(q))\<close> of what the oracle gave: \<^verbatim>\<open>Decimal("None")\<close> raises
  \<^verbatim>\<open>decimal.InvalidOperation\<close>; an exception of the oracle passes through.
\<close>

fun decimal_of_quote :: "quote \<Rightarrow> error + rat" where
  "decimal_of_quote (Price p) = Inr p"
| "decimal_of_quote NoPrice = Inl DecimalConversion"
| "decimal_of_quote OracleRaises = Inl OracleFailure"

text \<open>Line 69: the limit price if there is one, the oracle's otherwise.\<close>

definition crypto_exec_price :: "price_oracle \<Rightarrow> string \<Rightarrow> string \<Rightarrow> rat option \<Rightarrow> error + rat" where
  "crypto_exec_price get_last_price symbol order_type price =
     (case price of
        Some p \<Rightarrow>
          if order_type = ''LIMIT'' \<and> truthy_price price then Inr p
          else decimal_of_quote (get_last_price symbol ''CRYPTO'')
      | None \<Rightarrow> decimal_of_quote (get_last_price symbol ''CRYPTO''))"

text \<open>
  The branches work on the \<^verbatim>\<open>account\<close> and \<^verbatim>\<open>pos\<close> objects. A branch gives either the
  exception with both objects as they are at the \<^verbatim>\<open>raise\<close>, or the objects and the
  interest charged.
\<close>

type_synonym branch_result = "(error \<times> account \<times> position option) + (account \<times> position \<times> amount)"

text \<open>Lines 131 to 136 and 184 to 188: book the interest on the position, then take it from cash.\<close>

definition charge_interest :: "account \<Rightarrow> position \<Rightarrow> amount \<Rightarrow> (error \<times> account \<times> position) + (account \<times> position)" where
  "charge_interest account pos interest_charged =
     (if interest_charged > 0 then
        let pos1 = pos\<lparr>p_accumulated_interest := p_accumulated_interest pos + interest_charged\<rparr>
        in if current_cash account < interest_charged
           then Inl (InsufficientCashForInterest, account, pos1)
           else Inr (account\<lparr>current_cash := current_cash account - interest_charged\<rparr>, pos1)
      else Inr (account, pos))"

text \<open>Lines 139 to 149: add to a leveraged position of the same side, or refuse.\<close>

definition add_to_position :: "string \<Rightarrow> amount \<Rightarrow> rat \<Rightarrow> int \<Rightarrow> account \<Rightarrow> position \<Rightarrow> (error \<times> account \<times> position) + (account \<times> position)" where
  "add_to_position side_u notional quantity leverage account pos =
     (if p_side pos = Some side_u then
        let old_notional = p_quantity pos * p_avg_cost pos;
            new_qty = p_quantity pos + quantity
        in if new_qty = 0 then Inl (DecimalDivision, account, pos)
           else
             let new_cost = (old_notional + notional) / new_qty;
                 pos1 = pos\<lparr>p_quantity := new_qty, p_avg_cost := new_cost\<rparr>
             in if old_notional + notional = 0 then Inl (DecimalDivision, account, pos1)
                else Inr (account,
                       pos1\<lparr>p_leverage :=
                         py_int ((old_notional * of_int (p_leverage pos) + notional * of_int leverage)
                                   / (old_notional + notional))\<rparr>)
      else Inl (ConflictingPosition, account, pos))"

text \<open>
  Lines 152 to 172. A new \<^verbatim>\<open>Position\<close> gets the column defaults for the fields the
  constructor call does not give: no side, no interest, no interest time.
\<close>

definition new_crypto_position :: "nat \<Rightarrow> string \<Rightarrow> string \<Rightarrow> position" where
  "new_crypto_position aid symbol name =
     \<lparr>p_account_id = aid, p_symbol = symbol, p_name = name, p_market = ''CRYPTO'',
      p_quantity = 0, p_available_quantity = 0, p_avg_cost = 0, p_leverage = 1,
      p_side = None, p_accumulated_interest = 0, p_last_interest_time = None\<rparr>"

definition set_position :: "string \<Rightarrow> rat \<Rightarrow> rat \<Rightarrow> int \<Rightarrow> position \<Rightarrow> position" where
  "set_position side_u exec_price quantity leverage pos =
     pos\<lparr>p_quantity := quantity, p_available_quantity := quantity, p_avg_cost := exec_price,
         p_leverage := leverage, p_side := Some side_u\<rparr>"

text \<open>Lines 108 to 175: \<^verbatim>\<open>LONG\<close> and \<^verbatim>\<open>SHORT\<close> open a position.\<close>

definition open_position :: "params \<Rightarrow> rat \<Rightarrow> account \<Rightarrow> position option \<Rightarrow> string \<Rightarrow> string \<Rightarrow> string \<Rightarrow> rat \<Rightarrow> amount \<Rightarrow> amount \<Rightarrow> rat \<Rightarrow> int \<Rightarrow> branch_result" where
  "open_position prm now account pos symbol name side_u exec_price notional taker_fee quantity leverage =
     (let initial_margin = notional / of_int leverage;
          total_cost = initial_margin + taker_fee;
          available_cash = current_cash account
      in if available_cash < total_cost then Inl (InsufficientCash, account, pos)
         else
           let account1 = account\<lparr>current_cash := available_cash - total_cost\<rparr>;
               account2 = (if leverage > 1
                           then account1\<lparr>margin_used := margin_used account1 + initial_margin\<rparr>
                           else account1);
               fresh = set_position side_u exec_price quantity leverage
           in case pos of
                None \<Rightarrow>
                  Inr (account2,
                       (fresh (new_crypto_position (acc_id account) symbol name))
                         \<lparr>p_last_interest_time := Some now\<rparr>, 0)
              | Some p \<Rightarrow>
                  if p_leverage p > 1 \<and> truthy_side (p_side p) then
                    let interest_charged = calculate_position_interest prm now p
                    in (case charge_interest account2 p interest_charged of
                          Inl (e, a, p1) \<Rightarrow> Inl (e, a, Some p1)
                        | Inr (a, p1) \<Rightarrow>
                            (case add_to_position side_u notional quantity leverage a p1 of
                               Inl (e, a', p2) \<Rightarrow> Inl (e, a', Some p2)
                             | Inr (a', p2) \<Rightarrow>
                                 Inr (a', p2\<lparr>p_last_interest_time := Some now\<rparr>, interest_charged)))
                  else Inr (account2, (fresh p)\<lparr>p_last_interest_time := Some now\<rparr>, 0))"

text \<open>Lines 190 to 228: close all or part of a leveraged position.\<close>

definition close_leveraged :: "rat \<Rightarrow> string \<Rightarrow> amount \<Rightarrow> amount \<Rightarrow> rat \<Rightarrow> account \<Rightarrow> position \<Rightarrow> (error \<times> account \<times> position) + (account \<times> position)" where
  "close_leveraged now side_u notional taker_fee quantity account pos =
     (if (side_u = ''SELL'' \<and> p_side pos \<noteq> Some ''LONG'')
         \<or> (side_u = ''BUY'' \<and> p_side pos \<noteq> Some ''SHORT'')
      then Inl (CloseSideMismatch, account, pos)
      else if quantity > p_quantity pos then Inl (CloseExceedsPosition, account, pos)
      else
        let entry_notional = p_avg_cost pos * quantity;
            exit_notional = notional;
            pnl = (if p_side pos = Some ''LONG'' then exit_notional - entry_notional
                   else entry_notional - exit_notional);
            margin_released = entry_notional / of_int (p_leverage pos);
            net_cash_change = pnl + margin_released - taker_fee;
            account1 = account\<lparr>current_cash := current_cash account + net_cash_change\<rparr>;
            account2 = (if p_leverage pos > 1
                        then account1\<lparr>margin_used := margin_used account1 - margin_released\<rparr>
                        else account1);
            pos1 = pos\<lparr>p_quantity := p_quantity pos - quantity,
                       p_available_quantity := p_available_quantity pos - quantity\<rparr>
        in if p_quantity pos1 = 0
           then Inr (account2, pos1\<lparr>p_leverage := 1, p_side := None, p_last_interest_time := None\<rparr>)
           else Inr (account2, pos1\<lparr>p_last_interest_time := Some now\<rparr>))"

text \<open>Lines 230 to 242: sell from a position without leverage.\<close>

definition close_spot :: "string \<Rightarrow> amount \<Rightarrow> amount \<Rightarrow> rat \<Rightarrow> account \<Rightarrow> position \<Rightarrow> (error \<times> account \<times> position) + (account \<times> position)" where
  "close_spot side_u notional taker_fee quantity account pos =
     (if side_u \<noteq> ''SELL'' then Inl (SpotSellOnly, account, pos)
      else if quantity > p_available_quantity pos then Inl (InsufficientPosition, account, pos)
      else
        let cash_gain = notional - taker_fee
        in Inr (account\<lparr>current_cash := current_cash account + cash_gain\<rparr>,
                pos\<lparr>p_quantity := p_quantity pos - quantity,
                    p_available_quantity := p_available_quantity pos - quantity\<rparr>))"

text \<open>Lines 177 to 242: \<^verbatim>\<open>BUY\<close> and \<^verbatim>\<open>SELL\<close> close a position.\<close>

definition close_position :: "params \<Rightarrow> rat \<Rightarrow> account \<Rightarrow> position option \<Rightarrow> string \<Rightarrow> amount \<Rightarrow> amount \<Rightarrow> rat \<Rightarrow> branch_result" where
  "close_position prm now account pos side_u notional taker_fee quantity =
     (case pos of
        None \<Rightarrow> Inl (NoPositionToClose, account, None)
      | Some p \<Rightarrow>
          if p_quantity p = 0 then Inl (NoPositionToClose, account, Some p)
          else
            let interest_charged = calculate_position_interest prm now p
            in (case charge_interest account p interest_charged of
                  Inl (e, a, p1) \<Rightarrow> Inl (e, a, Some p1)
                | Inr (a, p1) \<Rightarrow>
                    (case (if p_leverage p1 > 1
                           then close_leveraged now side_u notional taker_fee quantity a p1
                           else close_spot side_u notional taker_fee quantity a p1) of
                       Inl (e, a', p2) \<Rightarrow> Inl (e, a', Some p2)
                     | Inr (a', p2) \<Rightarrow> Inr (a', p2, interest_charged))))"

text \<open>
  The objects go back to the session: the account, and the position, which is the row the
  query for \<open>(aid, symbol, market)\<close> found or a row that \<^verbatim>\<open>db.add\<close> appends.
\<close>

definition write_back :: "ledger \<Rightarrow> account \<Rightarrow> nat \<Rightarrow> string \<Rightarrow> string \<Rightarrow> position option \<Rightarrow> position option \<Rightarrow> ledger" where
  "write_back db account aid symbol market pos_before pos_after =
     db\<lparr>l_account := account,
        l_positions :=
          (case pos_after of
             None \<Rightarrow> l_positions db
           | Some p \<Rightarrow>
               (case pos_before of
                  None \<Rightarrow> l_positions db @ [p]
                | Some q \<Rightarrow> store_position (l_positions db) aid symbol market p))\<rparr>"

text \<open>Lines 108, 177 and 244: the branch on the side, in upper case.\<close>

definition crypto_branch :: "params \<Rightarrow> rat \<Rightarrow> account \<Rightarrow> position option \<Rightarrow> string \<Rightarrow> string \<Rightarrow> string \<Rightarrow> rat \<Rightarrow> amount \<Rightarrow> amount \<Rightarrow> rat \<Rightarrow> int \<Rightarrow> branch_result" where
  "crypto_branch prm now account pos symbol name side_u exec_price notional taker_fee quantity leverage =
     (if side_u = ''LONG'' \<or> side_u = ''SHORT''
      then open_position prm now account pos symbol name side_u exec_price
             notional taker_fee quantity leverage
      else if side_u = ''BUY'' \<or> side_u = ''SELL''
      then close_position prm now account pos side_u notional taker_fee quantity
      else Inl (InvalidSide, account, pos))"

text \<open>Lines 70 to 273: the execution once the price is known.\<close>

definition crypto_fill :: "params \<Rightarrow> rat \<Rightarrow> ledger \<Rightarrow> string \<Rightarrow> string \<Rightarrow> string \<Rightarrow> string \<Rightarrow> rat \<Rightarrow> rat \<Rightarrow> int \<Rightarrow> outcome" where
  "crypto_fill prm now db symbol name side_u order_type exec_price quantity leverage =
     (let account = l_account db;
          notional = exec_price * quantity;
          taker_fee = calc_crypto_fee prm notional leverage;
          order = \<lparr>o_account_id = acc_id account, o_symbol = symbol, o_name = name,
                   o_market = ''CRYPTO'', o_side = side_u, o_order_type = order_type,
                   o_price = Some exec_price, o_quantity = quantity, o_leverage = leverage,
                   o_filled_quantity = 0, o_status = ''PENDING''\<rparr>;
          db1 = db\<lparr>l_orders := l_orders db @ [order]\<rparr>;
          pos = query_position (l_positions db1) (acc_id account) symbol ''CRYPTO''
      in (case crypto_branch prm now account pos symbol name side_u exec_price notional
                 taker_fee quantity leverage of
            Inl (e, account', pos') \<Rightarrow>
              Raised e (write_back db1 account' (acc_id account) symbol ''CRYPTO'' pos pos')
          | Inr (account', pos', interest_charged) \<Rightarrow>
              let trade = \<lparr>t_account_id = acc_id account, t_symbol = symbol, t_name = name,
                           t_market = ''CRYPTO'', t_side = side_u, t_price = exec_price,
                           t_quantity = quantity, t_commission = taker_fee,
                           t_taker_fee = taker_fee, t_interest_charged = interest_charged\<rparr>;
                  db2 = write_back db1 account' (acc_id account) symbol ''CRYPTO'' pos (Some pos')
              in Returned (db2\<lparr>l_orders := l_orders db @ [order\<lparr>o_filled_quantity := quantity,
                                                                o_status := ''FILLED''\<rparr>],
                               l_trades := l_trades db @ [trade]\<rparr>)))"

text \<open>
  \<^verbatim>\<open>place_and_execute_crypto(db, account, ...)\<close>: the \<^verbatim>\<open>account\<close> argument is \<open>l_account db\<close>,
  and \<open>now\<close> is what \<^verbatim>\<open>datetime.now\<close> gives during the call.
\<close>

definition place_and_execute_crypto :: "params \<Rightarrow> price_oracle \<Rightarrow> rat \<Rightarrow> ledger \<Rightarrow> string \<Rightarrow> string \<Rightarrow> string \<Rightarrow> string \<Rightarrow> rat option \<Rightarrow> rat \<Rightarrow> int \<Rightarrow> outcome" where
  "place_and_execute_crypto prm get_last_price now db symbol name side order_type price quantity leverage =
     (if leverage < 1 \<or> leverage > CRYPTO_MAX_LEVERAGE prm then Raised LeverageOutOfRange db
      else if quantity < CRYPTO_MIN_ORDER_QUANTITY prm then Raised QuantityBelowMinimum db
      else
        (case crypto_exec_price get_last_price symbol order_type price of
           Inl e \<Rightarrow> Raised e db
         | Inr exec_price \<Rightarrow>
             crypto_fill prm now db symbol name (upper side) order_type exec_price quantity leverage))"

section \<open>The A-share executor\<close>

definition ASTOCK_MIN_COMMISSION :: rat where "ASTOCK_MIN_COMMISSION = 5"
definition ASTOCK_COMMISSION_RATE :: rat where "ASTOCK_COMMISSION_RATE = 3 / 10000"
definition ASTOCK_STAMP_TAX_RATE :: rat where "ASTOCK_STAMP_TAX_RATE = 1 / 1000"
definition ASTOCK_MIN_ORDER_QUANTITY :: int where "ASTOCK_MIN_ORDER_QUANTITY = 100"
definition ASTOCK_LOT_SIZE :: int where "ASTOCK_LOT_SIZE = 100"

definition calc_astock_fee :: "amount \<Rightarrow> bool \<Rightarrow> amount \<times> amount" where
  "calc_astock_fee notional is_sell =
     (let commission = max (notional * ASTOCK_COMMISSION_RATE) ASTOCK_MIN_COMMISSION;
          stamp_tax = (if is_sell then notional * ASTOCK_STAMP_TAX_RATE else 0)
      in (commission, stamp_tax))"

text \<open>Lines 67 to 73.\<close>

definition astock_exec_price :: "price_oracle \<Rightarrow> string \<Rightarrow> string \<Rightarrow> rat option \<Rightarrow> error + rat" where
  "astock_exec_price get_last_price symbol order_type price =
     (case price of
        Some p \<Rightarrow>
          if order_type = ''MARKET'' \<or> \<not> truthy_price price
          then decimal_of_quote (get_last_price symbol ''ASTOCK'')
          else Inr p
      | None \<Rightarrow> decimal_of_quote (get_last_price symbol ''ASTOCK''))"

text \<open>Lines 123 to 130 (and the same lines of the MT5 executor): buy into a position held.\<close>

definition average_in :: "amount \<Rightarrow> rat \<Rightarrow> position \<Rightarrow> error + position" where
  "average_in notional quantity pos =
     (let old_notional = p_quantity pos * p_avg_cost pos;
          new_qty = p_quantity pos + quantity
      in if new_qty = 0 then Inl DecimalDivision
         else
           let new_cost = (old_notional + notional) / new_qty
           in Inr (pos\<lparr>p_quantity := new_qty, p_available_quantity := new_qty,
                       p_avg_cost := new_cost\<rparr>))"

definition new_stock_position :: "nat \<Rightarrow> string \<Rightarrow> string \<Rightarrow> string \<Rightarrow> rat \<Rightarrow> rat \<Rightarrow> position" where
  "new_stock_position aid symbol name market quantity exec_price =
     \<lparr>p_account_id = aid, p_symbol = symbol, p_name = name, p_market = market,
      p_quantity = quantity, p_available_quantity = quantity, p_avg_cost = exec_price,
      p_leverage = 1, p_side = None, p_accumulated_interest = 0, p_last_interest_time = None\<rparr>"

text \<open>
  What both stock executors do once the order row is flushed, given the total fee: lines 102
  to 171 of the A-share executor, lines 159 to 229 of the MT5 executor.
\<close>

definition stock_branch :: "account \<Rightarrow> position option \<Rightarrow> string \<Rightarrow> string \<Rightarrow> string \<Rightarrow> string \<Rightarrow> rat \<Rightarrow> amount \<Rightarrow> amount \<Rightarrow> rat \<Rightarrow> (error \<times> account \<times> position option) + (account \<times> position)" where
  "stock_branch account pos symbol name market side_u exec_price notional total_fee quantity =
     (if side_u = ''BUY'' then
        let total_cost = notional + total_fee;
            available_cash = current_cash account
        in if available_cash < total_cost then Inl (InsufficientCash, account, pos)
           else
             let account1 = account\<lparr>current_cash := available_cash - total_cost\<rparr>
             in (case pos of
                   Some p \<Rightarrow>
                     (case average_in notional quantity p of
                        Inl e \<Rightarrow> Inl (e, account1, pos)
                      | Inr p1 \<Rightarrow> Inr (account1, p1))
                 | None \<Rightarrow>
                     Inr (account1,
                          new_stock_position (acc_id account) symbol name market quantity exec_price))
      else if side_u = ''SELL'' then
        (case pos of
           None \<Rightarrow> Inl (InsufficientPosition, account, pos)
         | Some p \<Rightarrow>
             if p_available_quantity p < quantity then Inl (InsufficientPosition, account, pos)
             else
               let cash_gain = notional - total_fee
               in Inr (account\<lparr>current_cash := current_cash account + cash_gain\<rparr>,
                       p\<lparr>p_quantity := p_quantity p - quantity,
                         p_available_quantity := p_available_quantity p - quantity\<rparr>))
      else Inl (InvalidSide, account, pos))"

text \<open>
  The rest of both executors, given the fees: the order row, the branch, the trade, the
  commit. The A-share executor records the commission and the stamp tax on the trade, the MT5
  executor the total fee and 0.
\<close>

definition stock_fill :: "ledger \<Rightarrow> string \<Rightarrow> string \<Rightarrow> string \<Rightarrow> string \<Rightarrow> string \<Rightarrow> rat \<Rightarrow> rat \<Rightarrow> amount \<Rightarrow> amount \<Rightarrow> amount \<Rightarrow> outcome" where
  "stock_fill db symbol name market side_u order_type exec_price quantity total_fee trade_commission trade_taker_fee =
     (let account = l_account db;
          notional = exec_price * quantity;
          order = \<lparr>o_account_id = acc_id account, o_symbol = symbol, o_name = name,
                   o_market = market, o_side = side_u, o_order_type = order_type,
                   o_price = Some exec_price, o_quantity = quantity, o_leverage = 1,
                   o_filled_quantity = 0, o_status = ''PENDING''\<rparr>;
          db1 = db\<lparr>l_orders := l_orders db @ [order]\<rparr>;
          pos = query_position (l_positions db1) (acc_id account) symbol market
      in (case stock_branch account pos symbol name market side_u exec_price
                 notional total_fee quantity of
            Inl (e, account', pos') \<Rightarrow>
              Raised e (write_back db1 account' (acc_id account) symbol market pos pos')
          | Inr (account', pos') \<Rightarrow>
              let trade = \<lparr>t_account_id = acc_id account, t_symbol = symbol, t_name = name,
                           t_market = market, t_side = side_u, t_price = exec_price,
                           t_quantity = quantity, t_commission = trade_commission,
                           t_taker_fee = trade_taker_fee, t_interest_charged = 0\<rparr>;
                  db2 = write_back db1 account' (acc_id account) symbol market pos (Some pos')
              in Returned (db2\<lparr>l_orders := l_orders db @ [order\<lparr>o_filled_quantity := quantity,
                                                                o_status := ''FILLED''\<rparr>],
                               l_trades := l_trades db @ [trade]\<rparr>)))"

text \<open>
  \<^verbatim>\<open>place_and_execute_astock(db, account, ...)\<close>. With \<^verbatim>\<open>use_ths\<close> the order is also sent
  to the THS terminal; that call changes nothing here and its failure is swallowed.
\<close>

definition place_and_execute_astock :: "price_oracle \<Rightarrow> ledger \<Rightarrow> string \<Rightarrow> string \<Rightarrow> string \<Rightarrow> string \<Rightarrow> rat option \<Rightarrow> int \<Rightarrow> bool \<Rightarrow> outcome" where
  "place_and_execute_astock get_last_price db symbol name side order_type price quantity use_ths =
     (if quantity mod ASTOCK_LOT_SIZE \<noteq> 0 then Raised QuantityNotLotMultiple db
      else if quantity < ASTOCK_MIN_ORDER_QUANTITY then Raised QuantityBelowMinimum db
      else
        (case astock_exec_price get_last_price symbol order_type price of
           Inl e \<Rightarrow> Raised e db
         | Inr exec_price \<Rightarrow>
             let notional = exec_price * of_int quantity;
                 is_sell = (upper side = ''SELL'');
                 (commission, stamp_tax) = calc_astock_fee notional is_sell;
                 total_fee = commission + stamp_tax
             in stock_fill db symbol name ''ASTOCK'' (upper side) order_type exec_price
                  (of_int quantity) total_fee commission stamp_tax))"

section \<open>The MT5 executor for A-shares on the CN market\<close>

definition CN_MIN_ORDER_QUANTITY :: int where "CN_MIN_ORDER_QUANTITY = 100"
definition CN_COMMISSION_RATE :: rat where "CN_COMMISSION_RATE = 3 / 10000"
definition CN_MIN_COMMISSION :: rat where "CN_MIN_COMMISSION = 5"
definition CN_STAMP_TAX_RATE :: rat where "CN_STAMP_TAX_RATE = 1 / 1000"
definition CN_TRANSFER_FEE_RATE :: rat where "CN_TRANSFER_FEE_RATE = 2 / 100000"

definition calc_cn_fee :: "int \<Rightarrow> rat \<Rightarrow> bool \<Rightarrow> amount" where
  "calc_cn_fee quantity price is_sell =
     (let notional = of_int quantity * price;
          commission = max (notional * CN_COMMISSION_RATE) CN_MIN_COMMISSION;
          stamp_tax = (if is_sell then notional * CN_STAMP_TAX_RATE else 0);
          transfer_fee = notional * CN_TRANSFER_FEE_RATE
      in commission + stamp_tax + transfer_fee)"

text \<open>
  Lines 126 to 131: \<^verbatim>\<open>Decimal(str(get_last_price(symbol) or price))\<close>. The MT5 oracle takes
  the symbol alone.
\<close>

definition mt5_exec_price :: "(string \<Rightarrow> quote) \<Rightarrow> string \<Rightarrow> string \<Rightarrow> rat option \<Rightarrow> error + rat" where
  "mt5_exec_price get_last_price symbol order_type price =
     (if order_type = ''MARKET'' \<or> \<not> truthy_price price then
        (case get_last_price symbol of
           OracleRaises \<Rightarrow> Inl OracleFailure
         | Price p \<Rightarrow>
             if p \<noteq> 0 then Inr p
             else (case price of Some q \<Rightarrow> Inr q | None \<Rightarrow> Inl DecimalConversion)
         | NoPrice \<Rightarrow> (case price of Some q \<Rightarrow> Inr q | None \<Rightarrow> Inl DecimalConversion))
      else (case price of Some q \<Rightarrow> Inr q | None \<Rightarrow> Inl DecimalConversion))"

text \<open>
  \<^verbatim>\<open>place_and_execute_mt5_order(db, account, ...)\<close>. With \<^verbatim>\<open>use_mt5_platform\<close> the order is
  also sent to the terminal, which changes nothing here.
\<close>

definition place_and_execute_mt5_order :: "(string \<Rightarrow> quote) \<Rightarrow> ledger \<Rightarrow> string \<Rightarrow> string \<Rightarrow> string \<Rightarrow> string \<Rightarrow> rat option \<Rightarrow> int \<Rightarrow> bool \<Rightarrow> string \<Rightarrow> outcome" where
  "place_and_execute_mt5_order get_last_price db symbol name side order_type price quantity use_mt5_platform market =
     (if quantity mod CN_MIN_ORDER_QUANTITY \<noteq> 0 then Raised QuantityNotLotMultiple db
      else
        (case mt5_exec_price get_last_price symbol order_type price of
           Inl e \<Rightarrow> Raised e db
         | Inr exec_price \<Rightarrow>
             let is_sell = (upper side = ''SELL'');
                 total_fee = calc_cn_fee quantity exec_price is_sell
             in stock_fill db symbol name market (upper side) order_type exec_price
                  (of_int quantity) total_fee total_fee 0))"

section \<open>The margin monitor\<close>

text \<open>
  Lines 329 to 333 of \<^verbatim>\<open>scheduler.py\<close>: the open leveraged positions of the account. The
  query gives objects that alias the rows, so the result is the list of their places in the
  table; the engine changes rows in place and appends new ones, and never moves one.
\<close>

definition is_leveraged_open :: "nat \<Rightarrow> position \<Rightarrow> bool" where
  "is_leveraged_open aid p \<longleftrightarrow> p_account_id p = aid \<and> p_quantity p > 0 \<and> p_leverage p > 1"

definition leveraged_open :: "ledger \<Rightarrow> nat list" where
  "leveraged_open db =
     filter (\<lambda>i. is_leveraged_open (acc_id (l_account db)) (l_positions db ! i))
       [0 ..< length (l_positions db)]"

text \<open>
  Lines 342 to 373: the unrealized profit of the positions. A position whose price lookup
  raises, or gives nothing, zero or a negative price, is skipped. The position value that the
  loop also adds up is used nowhere and is left out.
\<close>

definition position_pnl :: "position \<Rightarrow> rat \<Rightarrow> amount" where
  "position_pnl position current_price =
     (let quantity = p_quantity position;
          avg_cost = p_avg_cost position
      in if p_side position = Some ''LONG'' then quantity * (current_price - avg_cost)
         else if p_side position = Some ''SHORT'' then quantity * (avg_cost - current_price)
         else quantity * (current_price - avg_cost))"

fun total_pnl_loop :: "price_oracle \<Rightarrow> position list \<Rightarrow> amount \<Rightarrow> amount" where
  "total_pnl_loop get_last_price [] total_pnl = total_pnl"
| "total_pnl_loop get_last_price (position # positions) total_pnl =
     (case get_last_price (p_symbol position) (p_market position) of
        OracleRaises \<Rightarrow> total_pnl_loop get_last_price positions total_pnl
      | NoPrice \<Rightarrow> total_pnl_loop get_last_price positions total_pnl
      | Price current_price \<Rightarrow>
          if current_price = 0 \<or> current_price \<le> 0
          then total_pnl_loop get_last_price positions total_pnl
          else total_pnl_loop get_last_price positions
                 (total_pnl + position_pnl position current_price))"

text \<open>Line 376: cash plus the unrealized profit of the open leveraged positions.\<close>

definition account_equity :: "price_oracle \<Rightarrow> ledger \<Rightarrow> amount" where
  "account_equity get_last_price db =
     current_cash (l_account db)
       + total_pnl_loop get_last_price (map (\<lambda>i. l_positions db ! i) (leveraged_open db)) 0"

text \<open>Lines 420 to 439: the order that closes a position, \<^verbatim>\<open>SELL\<close> for a long one.\<close>

definition liquidation_order :: "account \<Rightarrow> position \<Rightarrow> order" where
  "liquidation_order account position =
     (let close_side = (if p_side position = Some ''LONG'' then ''SELL'' else ''BUY'')
      in \<lparr>o_account_id = acc_id account, o_symbol = p_symbol position,
          o_name = p_name position, o_market = p_market position, o_side = close_side,
          o_order_type = ''MARKET'', o_price = None, o_quantity = p_quantity position,
          o_leverage = 1, o_filled_quantity = 0, o_status = ''PENDING''\<rparr>)"

text \<open>
  \<^verbatim>\<open>_liquidate_positions\<close>, over the places of the positions and for a given engine
  \<open>execute\<close>, which stands for \<^verbatim>\<open>check_and_execute_order(db, order)\<close> and gives a flag and
  the session it leaves. An exception of the engine is caught and logged by the loop, as a
  \<^verbatim>\<open>False\<close> is.
\<close>

fun liquidate_positions :: "(ledger \<Rightarrow> order \<Rightarrow> bool \<times> ledger) \<Rightarrow> ledger \<Rightarrow> nat list \<Rightarrow> ledger" where
  "liquidate_positions execute db [] = db"
| "liquidate_positions execute db (i # positions) =
     (let position = l_positions db ! i
      in if p_quantity position \<le> 0 then liquidate_positions execute db positions
         else
           let order = liquidation_order (l_account db) position;
               db1 = db\<lparr>l_orders := l_orders db @ [order]\<rparr>;
               (executed, db2) = execute db1 order
           in liquidate_positions execute db2 positions)"

text \<open>\<^verbatim>\<open>_check_account_margin\<close>: one sweep of the monitor over one account.\<close>

definition check_account_margin :: "(ledger \<Rightarrow> order \<Rightarrow> bool \<times> ledger) \<Rightarrow> price_oracle \<Rightarrow> ledger \<Rightarrow> ledger" where
  "check_account_margin execute get_last_price db =
     (let account = l_account db;
          positions = leveraged_open db
      in if positions = [] then db
         else
           let equity = account_equity get_last_price db;
               margin = margin_used account
           in if margin \<le> 0 then db
              else
                let margin_level = equity / margin
                in if margin_level < maintenance_margin_ratio account
                   then liquidate_positions execute db positions
                   else db)"

section \<open>The engine behind the monitor\<close>

text \<open>
  The rejections of the engine that a closing order can meet, in the spec's names
  (\<open>BadSide\<close> is its \<^verbatim>\<open>InvalidSide\<close>).
\<close>

datatype rejection = PriceUnavailable | InsufficientFunds | NoPosition | SideMismatch | BadSide

text \<open>
  Modelled from the spec: the price of an order in the execution engine, which for the
  monitor is \<^verbatim>\<open>check_and_execute_order\<close> of \<^verbatim>\<open>services/order_matching.py\<close>, not among
  the sources. A market order takes the oracle's price, a limit order its own; an oracle
  that fails or gives nothing or zero rejects the order with \<^verbatim>\<open>PriceUnavailable\<close>.
\<close>

definition engine_price :: "price_oracle \<Rightarrow> order \<Rightarrow> rejection + rat" where
  "engine_price get_last_price order =
     (if o_order_type order = ''MARKET'' then
        (case get_last_price (o_symbol order) (o_market order) of
           Price p \<Rightarrow> if p = 0 then Inl PriceUnavailable else Inr p
         | NoPrice \<Rightarrow> Inl PriceUnavailable
         | OracleRaises \<Rightarrow> Inl PriceUnavailable)
      else (case o_price order of Some p \<Rightarrow> Inr p | None \<Rightarrow> Inl PriceUnavailable))"

text \<open>
  Modelled from the spec: the close path of the execution engine (section 4.2, step 4), which
  is missing with \<^verbatim>\<open>check_and_execute_order\<close>. No position or too little available rejects
  with \<^verbatim>\<open>NoPosition\<close>. On a leveraged position the closing side must be the inverse of the
  position's side; the interest outstanding is accrued and deducted first, and rejects with
  \<^verbatim>\<open>InsufficientFunds\<close> when cash cannot cover it; the profit is (exit - entry) * quantity
  for a long and (entry - exit) * quantity for a short position; the margin released is the
  entry notional over the leverage; cash gains profit plus released margin minus fees. On a
  spot position cash gains notional minus fees. Quantity and available quantity go down, and
  side, leverage and interest time are reset when the quantity reaches exactly 0. The fee is
  the taker fee of the leveraged market and the interest that of section 4.1, which is the
  formula of \<open>calculate_position_interest\<close>.
\<close>

definition engine_close :: "params \<Rightarrow> rat \<Rightarrow> account \<Rightarrow> position \<Rightarrow> string \<Rightarrow> rat \<Rightarrow> rat \<Rightarrow> rejection + (account \<times> position \<times> amount \<times> amount)" where
  "engine_close prm now account pos side_u exec_price quantity =
     (let notional = exec_price * quantity;
          fees = notional * CRYPTO_TAKER_FEE_RATE prm
      in if side_u \<noteq> ''BUY'' \<and> side_u \<noteq> ''SELL'' then Inl BadSide
         else if p_available_quantity pos < quantity then Inl NoPosition
         else if p_leverage pos > 1 then
           (if (side_u = ''SELL'' \<and> p_side pos \<noteq> Some ''LONG'')
               \<or> (side_u = ''BUY'' \<and> p_side pos \<noteq> Some ''SHORT'')
            then Inl SideMismatch
            else
              let interest = max 0 (calculate_position_interest prm now pos)
              in if current_cash account < interest then Inl InsufficientFunds
                 else
                   let entry_notional = p_avg_cost pos * quantity;
                       pnl = (if p_side pos = Some ''LONG'' then notional - entry_notional
                              else entry_notional - notional);
                       released_margin = entry_notional / of_int (p_leverage pos);
                       account1 = account\<lparr>current_cash :=
                                             current_cash account - interest + (pnl + released_margin - fees),
                                          margin_used := margin_used account - released_margin\<rparr>;
                       pos1 = pos\<lparr>p_quantity := p_quantity pos - quantity,
                                  p_available_quantity := p_available_quantity pos - quantity,
                                  p_accumulated_interest := p_accumulated_interest pos + interest\<rparr>
                   in if p_quantity pos1 = 0
                      then Inr (account1,
                                pos1\<lparr>p_leverage := 1, p_side := None, p_last_interest_time := None\<rparr>,
                                fees, interest)
                      else Inr (account1, pos1\<lparr>p_last_interest_time := Some now\<rparr>, fees, interest))
         else if side_u \<noteq> ''SELL'' then Inl SideMismatch
         else
           let account1 = account\<lparr>current_cash := current_cash account + (notional - fees)\<rparr>;
               pos1 = pos\<lparr>p_quantity := p_quantity pos - quantity,
                          p_available_quantity := p_available_quantity pos - quantity\<rparr>
           in if p_quantity pos1 = 0
              then Inr (account1,
                        pos1\<lparr>p_leverage := 1, p_side := None, p_last_interest_time := None\<rparr>,
                        fees, 0)
              else Inr (account1, pos1, fees, 0))"

text \<open>The order the monitor flushed is the last row of the orders.\<close>

definition set_last_order :: "ledger \<Rightarrow> (order \<Rightarrow> order) \<Rightarrow> ledger" where
  "set_last_order db f =
     (if l_orders db = [] then db
      else db\<lparr>l_orders := butlast (l_orders db) @ [f (last (l_orders db))]\<rparr>)"

text \<open>
  Modelled from the spec: \<^verbatim>\<open>check_and_execute_order(db, order)\<close> of
  \<^verbatim>\<open>services/order_matching.py\<close>, which is not among the sources. The order goes through
  the close path of the engine. A rejected order is marked REJECTED and nothing else changes
  (section 7: no partial state); an executed order is marked FILLED, its trade is recorded,
  and account and position are updated together.
\<close>

definition check_and_execute_order :: "params \<Rightarrow> price_oracle \<Rightarrow> rat \<Rightarrow> ledger \<Rightarrow> order \<Rightarrow> bool \<times> ledger" where
  "check_and_execute_order prm get_last_price now db order =
     (let rejected = (False, set_last_order db (\<lambda>ord. ord\<lparr>o_status := ''REJECTED''\<rparr>))
      in case engine_price get_last_price order of
           Inl r \<Rightarrow> rejected
         | Inr exec_price \<Rightarrow>
             (case query_position (l_positions db) (o_account_id order) (o_symbol order)
                     (o_market order) of
                None \<Rightarrow> rejected
              | Some pos \<Rightarrow>
                  (case engine_close prm now (l_account db) pos (o_side order) exec_price
                          (o_quantity order) of
                     Inl r \<Rightarrow> rejected
                   | Inr (account', pos', fees, interest) \<Rightarrow>
                       let trade = \<lparr>t_account_id = o_account_id order, t_symbol = o_symbol order,
                                    t_name = o_name order, t_market = o_market order,
                                    t_side = o_side order, t_price = exec_price,
                                    t_quantity = o_quantity order, t_commission = fees,
                                    t_taker_fee = fees, t_interest_charged = interest\<rparr>;
                           db1 = db\<lparr>l_account := account',
                                    l_positions := store_position (l_positions db) (o_account_id order)
                                                     (o_symbol order) (o_market order) pos',
                                    l_trades := l_trades db @ [trade]\<rparr>
                       in (True, set_last_order db1
                                   (\<lambda>ord. ord\<lparr>o_filled_quantity := o_quantity order,
                                              o_status := ''FILLED''\<rparr>)))))"

text \<open>The sweep of the monitor with that engine.\<close>

definition margin_sweep :: "params \<Rightarrow> price_oracle \<Rightarrow> rat \<Rightarrow> ledger \<Rightarrow> ledger" where
  "margin_sweep prm get_last_price now db =
     check_account_margin (check_and_execute_order prm get_last_price now) get_last_price db"

section \<open>The vocabulary of the properties\<close>

text \<open>
  An account is flat in a symbol when it has no crypto position row for it, or a row that
  holds nothing and has no side.
\<close>

definition flat :: "ledger \<Rightarrow> string \<Rightarrow> bool" where
  "flat db symbol \<longleftrightarrow>
     (case query_position (l_positions db) (acc_id (l_account db)) symbol ''CRYPTO'' of
        None \<Rightarrow> True
      | Some p \<Rightarrow> p_quantity p = 0 \<and> p_side p = None)"


text \<open>
  What the monitor is expected to leave behind. A row of the position table is identified by
  account, symbol and market. An order closes a position when it is a market order for the
  position's symbol and full quantity, \<^verbatim>\<open>SELL\<close> for a long position and \<^verbatim>\<open>BUY\<close> otherwise. The
  position at place \<open>i\<close> is settled by an order when the order closes it and, if the order
  was filled, the position has quantity 0 and no side afterwards, and otherwise is as before.
\<close>

definition row_key :: "position \<Rightarrow> nat \<times> string \<times> string" where
  "row_key p = (p_account_id p, p_symbol p, p_market p)"

definition closes_position :: "position \<Rightarrow> order \<Rightarrow> bool" where
  "closes_position p ord \<longleftrightarrow>
     o_symbol ord = p_symbol p \<and> o_market ord = p_market p \<and> o_order_type ord = ''MARKET''
     \<and> o_price ord = None \<and> o_quantity ord = p_quantity p
     \<and> o_side ord = (if p_side p = Some ''LONG'' then ''SELL'' else ''BUY'')"

definition settled :: "ledger \<Rightarrow> ledger \<Rightarrow> nat \<Rightarrow> order \<Rightarrow> bool" where
  "settled db db' i ord \<longleftrightarrow>
     closes_position (l_positions db ! i) ord
     \<and> (o_status ord = ''FILLED'' \<longrightarrow>
          p_quantity (l_positions db' ! i) = 0 \<and> p_side (l_positions db' ! i) = None)
     \<and> (o_status ord \<noteq> ''FILLED'' \<longrightarrow> l_positions db' ! i = l_positions db ! i)"

section \<open>Worked scenarios\<close>

definition example_params :: params where
  "example_params =
     \<lparr>CRYPTO_TAKER_FEE_RATE = 1 / 1000, CRYPTO_INTEREST_RATE_HOURLY = 1 / 10000,
      CRYPTO_MAX_LEVERAGE = 50, CRYPTO_MIN_ORDER_QUANTITY = 1 / 1000\<rparr>"

definition example_long :: position where
  "example_long =
     \<lparr>p_account_id = 1, p_symbol = ''BTC/USDT'', p_name = ''Bitcoin'', p_market = ''CRYPTO'',
      p_quantity = 2, p_available_quantity = 2, p_avg_cost = 100, p_leverage = 5,
      p_side = Some ''LONG'', p_accumulated_interest = 0, p_last_interest_time = Some 0\<rparr>"

definition example_spot :: position where
  "example_spot =
     \<lparr>p_account_id = 1, p_symbol = ''ETH/USDT'', p_name = ''Ether'', p_market = ''CRYPTO'',
      p_quantity = 3, p_available_quantity = 3, p_avg_cost = 10, p_leverage = 1,
      p_side = None, p_accumulated_interest = 0, p_last_interest_time = None\<rparr>"

definition example_ledger :: ledger where
  "example_ledger =
     \<lparr>l_account = \<lparr>acc_id = 1, current_cash = 1000, margin_used = 40,
                    maintenance_margin_ratio = 1 / 2\<rparr>,
      l_positions = [example_long, example_spot], l_orders = [], l_trades = []\<rparr>"

text \<open>
  The scenario of the A-share example: 100000 in cash, a limit order to buy 100 shares of
  600000 at 10.00, through the A-share executor and through the MT5 executor on the CN market.
\<close>

definition cn_ledger :: ledger where
  "cn_ledger =
     \<lparr>l_account = \<lparr>acc_id = 1, current_cash = 100000, margin_used = 0,
                    maintenance_margin_ratio = 1 / 2\<rparr>,
      l_positions = [], l_orders = [], l_trades = []\<rparr>"

definition astock_buy :: outcome where
  "astock_buy =
     place_and_execute_astock (\<lambda>s m. NoPrice) cn_ledger ''600000'' ''SPDB'' ''BUY'' ''LIMIT''
       (Some 10) 100 False"

definition mt5_buy :: outcome where
  "mt5_buy =
     place_and_execute_mt5_order (\<lambda>s. NoPrice) cn_ledger ''600000'' ''SPDB'' ''BUY'' ''LIMIT''
       (Some 10) 100 False ''CN''"

text \<open>The same account asks for a million's worth of shares.\<close>

definition astock_buy_too_much :: outcome where
  "astock_buy_too_much =
     place_and_execute_astock (\<lambda>s m. NoPrice) cn_ledger ''600000'' ''SPDB'' ''BUY'' ''LIMIT''
       (Some 10) 100000 False"

text \<open>
  An hour after the long position of \<open>example_ledger\<close> was last touched, a \<^verbatim>\<open>SHORT\<close> of 1
  at 100 with leverage 2 arrives for the same symbol.
\<close>

definition short_against_long :: outcome where
  "short_against_long =
     place_and_execute_crypto example_params (\<lambda>s m. NoPrice) 3600 example_ledger
       ''BTC/USDT'' ''Bitcoin'' ''SHORT'' ''LIMIT'' (Some 100) 1 2"

text \<open>Market orders while the oracle answers 0.\<close>

definition crypto_long_at_zero :: outcome where
  "crypto_long_at_zero =
     place_and_execute_crypto example_params (\<lambda>s m. Price 0) 3600 example_ledger
       ''SOL/USDT'' ''Solana'' ''LONG'' ''MARKET'' None 1 2"

definition astock_buy_at_zero :: outcome where
  "astock_buy_at_zero =
     place_and_execute_astock (\<lambda>s m. Price 0) cn_ledger ''600000'' ''SPDB'' ''BUY'' ''MARKET''
       None 100 False"




text \<open>Selling what the account does not hold.\<close>

definition crypto_sell_nothing :: outcome where
  "crypto_sell_nothing =
     place_and_execute_crypto example_params (\<lambda>s m. NoPrice) 0 example_ledger
       ''SOL/USDT'' ''Solana'' ''SELL'' ''LIMIT'' (Some 10) 1 1"

text \<open>
  An account in a margin call: 10 in cash against a margin of 110, long 1 BTC from 1000 and
  short 2 ETH from 50, both with leverage 10, while BTC trades at 950 and ETH at 50. The
  sweep runs either at the instant of the last interest time or a thousand hours later.
\<close>

definition margin_call_ledger :: ledger where
  "margin_call_ledger =
     \<lparr>l_account = \<lparr>acc_id = 1, current_cash = 10, margin_used = 110,
                    maintenance_margin_ratio = 1 / 2\<rparr>,
      l_positions =
        [\<lparr>p_account_id = 1, p_symbol = ''BTC/USDT'', p_name = ''Bitcoin'', p_market = ''CRYPTO'',
          p_quantity = 1, p_available_quantity = 1, p_avg_cost = 1000, p_leverage = 10,
          p_side = Some ''LONG'', p_accumulated_interest = 0, p_last_interest_time = Some 0\<rparr>,
         \<lparr>p_account_id = 1, p_symbol = ''ETH/USDT'', p_name = ''Ether'', p_market = ''CRYPTO'',
          p_quantity = 2, p_available_quantity = 2, p_avg_cost = 50, p_leverage = 10,
          p_side = Some ''SHORT'', p_accumulated_interest = 0, p_last_interest_time = Some 0\<rparr>],
      l_orders = [], l_trades = []\<rparr>"

definition margin_call_prices :: price_oracle where
  "margin_call_prices symbol market = (if symbol = ''BTC/USDT'' then Price 950 else Price 50)"

definition sweep_at_once :: ledger where
  "sweep_at_once = margin_sweep example_params margin_call_prices 0 margin_call_ledger"

definition sweep_later :: ledger where
  "sweep_later = margin_sweep example_params margin_call_prices 3600000 margin_call_ledger"

section \<open>Interest and valuation\<close>






section \<open>The position row of an order\<close>

lemma query_is_row:
  "query_position ps aid symbol market = Some q \<Longrightarrow> is_row aid symbol market q"
  by (auto simp: query_position_def find_Some_iff)

lemma query_store:
  "query_position ps aid symbol market = Some q \<Longrightarrow> is_row aid symbol market p' \<Longrightarrow>
   query_position (store_position ps aid symbol market p') aid symbol market = Some p'"
  by (induction ps) (auto simp: query_position_def)



section \<open>Filled and refused crypto orders\<close>

lemma crypto_fill_returns:
  assumes "crypto_branch prm now (l_account db)
             (query_position (l_positions db) (acc_id (l_account db)) symbol ''CRYPTO'')
             symbol name side_u exec_price (exec_price * quantity)
             (calc_crypto_fee prm (exec_price * quantity) leverage) quantity leverage = Inr (a', p', i)"
  shows "crypto_fill prm now db symbol name side_u order_type exec_price quantity leverage =
           Returned
             \<lparr>l_account = a',
              l_positions =
                (case query_position (l_positions db) (acc_id (l_account db)) symbol ''CRYPTO'' of
                   None \<Rightarrow> l_positions db @ [p']
                 | Some q \<Rightarrow> store_position (l_positions db) (acc_id (l_account db)) symbol ''CRYPTO'' p'),
              l_orders = l_orders db @
                [\<lparr>o_account_id = acc_id (l_account db), o_symbol = symbol, o_name = name,
                  o_market = ''CRYPTO'', o_side = side_u, o_order_type = order_type,
                  o_price = Some exec_price, o_quantity = quantity, o_leverage = leverage,
                  o_filled_quantity = quantity, o_status = ''FILLED''\<rparr>],
              l_trades = l_trades db @
                [\<lparr>t_account_id = acc_id (l_account db), t_symbol = symbol, t_name = name,
                  t_market = ''CRYPTO'', t_side = side_u, t_price = exec_price,
                  t_quantity = quantity,
                  t_commission = calc_crypto_fee prm (exec_price * quantity) leverage,
                  t_taker_fee = calc_crypto_fee prm (exec_price * quantity) leverage,
                  t_interest_charged = i\<rparr>]\<rparr>"
  using assms
  by (simp add: crypto_fill_def Let_def write_back_def split: option.splits)

lemma crypto_fill_raises:
  assumes "crypto_branch prm now (l_account db)
             (query_position (l_positions db) (acc_id (l_account db)) symbol ''CRYPTO'')
             symbol name side_u exec_price (exec_price * quantity)
             (calc_crypto_fee prm (exec_price * quantity) leverage) quantity leverage = Inl (e, a', pos')"
  shows "crypto_fill prm now db symbol name side_u order_type exec_price quantity leverage =
           Raised e
             \<lparr>l_account = a',
              l_positions =
                (case pos' of
                   None \<Rightarrow> l_positions db
                 | Some p \<Rightarrow>
                     (case query_position (l_positions db) (acc_id (l_account db)) symbol ''CRYPTO'' of
                        None \<Rightarrow> l_positions db @ [p]
                      | Some q \<Rightarrow> store_position (l_positions db) (acc_id (l_account db)) symbol ''CRYPTO'' p)),
              l_orders = l_orders db @
                [\<lparr>o_account_id = acc_id (l_account db), o_symbol = symbol, o_name = name,
                  o_market = ''CRYPTO'', o_side = side_u, o_order_type = order_type,
                  o_price = Some exec_price, o_quantity = quantity, o_leverage = leverage,
                  o_filled_quantity = 0, o_status = ''PENDING''\<rparr>],
              l_trades = l_trades db\<rparr>"
  using assms
  by (simp add: crypto_fill_def Let_def write_back_def split: option.splits)

lemma open_position_fresh:
  assumes "\<forall>p. pos = Some p \<longrightarrow> \<not> (p_leverage p > 1 \<and> truthy_side (p_side p))"
    and "notional / of_int leverage + taker_fee \<le> current_cash account"
  shows "open_position prm now account pos symbol name side_u exec_price notional taker_fee quantity leverage =
           Inr ((if leverage > 1
                 then account\<lparr>current_cash := current_cash account - (notional / of_int leverage + taker_fee),
                              margin_used := margin_used account + notional / of_int leverage\<rparr>
                 else account\<lparr>current_cash := current_cash account - (notional / of_int leverage + taker_fee)\<rparr>),
                (set_position side_u exec_price quantity leverage
                   (case pos of None \<Rightarrow> new_crypto_position (acc_id account) symbol name | Some p \<Rightarrow> p))
                  \<lparr>p_last_interest_time := Some now\<rparr>,
                0)"
  using assms
  by (auto simp: open_position_def Let_def split: option.splits)


lemma is_row_set_position:
  "is_row aid symbol market (set_position side_u exec_price quantity leverage p\<lparr>p_last_interest_time := t\<rparr>)
     = is_row aid symbol market p"
  by (simp add: is_row_def set_position_def)

text \<open>
  C10. A \<^verbatim>\<open>LONG\<close> or \<^verbatim>\<open>SHORT\<close> order that passes validation and the cash check, on a
  symbol whose position row has leverage 1 or no side, is filled, and the row then holds the
  order's quantity (also as available quantity), its price as average cost, its leverage and
  its side: what the row held before is not merged in.
\<close>

theorem open_overwrites_unleveraged:
  assumes side: "upper side = ''LONG'' \<or> upper side = ''SHORT''"
    and lev: "1 \<le> leverage" "leverage \<le> CRYPTO_MAX_LEVERAGE prm"
    and qty: "CRYPTO_MIN_ORDER_QUANTITY prm \<le> quantity"
    and px: "crypto_exec_price get_last_price symbol order_type price = Inr exec_price"
    and held: "query_position (l_positions db) (acc_id (l_account db)) symbol ''CRYPTO'' = Some p"
    and flat: "p_leverage p = 1 \<or> p_side p = None"
    and cash: "exec_price * quantity / of_int leverage
                 + calc_crypto_fee prm (exec_price * quantity) leverage \<le> current_cash (l_account db)"
  shows "\<exists>db' p'.
           place_and_execute_crypto prm get_last_price now db symbol name side order_type price
             quantity leverage = Returned db'
         \<and> query_position (l_positions db') (acc_id (l_account db)) symbol ''CRYPTO'' = Some p'
         \<and> p_quantity p' = quantity \<and> p_available_quantity p' = quantity
         \<and> p_avg_cost p' = exec_price \<and> p_leverage p' = leverage \<and> p_side p' = Some (upper side)"
proof -
  let ?fee = "calc_crypto_fee prm (exec_price * quantity) leverage"
  let ?p' = "(set_position (upper side) exec_price quantity leverage p)\<lparr>p_last_interest_time := Some now\<rparr>"
  have nolev: "\<forall>q. Some p = Some q \<longrightarrow> \<not> (p_leverage q > 1 \<and> truthy_side (p_side q))"
    using flat by auto
  obtain a' where br: "crypto_branch prm now (l_account db)
             (query_position (l_positions db) (acc_id (l_account db)) symbol ''CRYPTO'')
             symbol name (upper side) exec_price (exec_price * quantity) ?fee quantity leverage
           = Inr (a', ?p', 0)" and aid: "acc_id a' = acc_id (l_account db)"
    using side held open_position_fresh [OF nolev cash, of prm now symbol name "upper side" exec_price quantity]
    by (simp add: crypto_branch_def)
  have row: "is_row (acc_id (l_account db)) symbol ''CRYPTO'' ?p'"
    using query_is_row [OF held] by (simp add: is_row_set_position)
  have q: "query_position (store_position (l_positions db) (acc_id (l_account db)) symbol ''CRYPTO'' ?p')
             (acc_id (l_account db)) symbol ''CRYPTO'' = Some ?p'"
    by (rule query_store [OF held row])
  have "place_and_execute_crypto prm get_last_price now db symbol name side order_type price
             quantity leverage
        = crypto_fill prm now db symbol name (upper side) order_type exec_price quantity leverage"
    using lev qty px by (simp add: place_and_execute_crypto_def)
  then show ?thesis
    using crypto_fill_returns [OF br, of order_type] held aid q
    by (simp add: set_position_def)
qed


theorem open_overwrites_unleveraged_witness:
  "\<exists>db' p'.
     place_and_execute_crypto example_params (\<lambda>s m. NoPrice) 0 example_ledger ''ETH/USDT'' ''Ether''
       ''long'' ''LIMIT'' (Some 20) 2 4 = Returned db'
     \<and> query_position (l_positions db') 1 ''ETH/USDT'' ''CRYPTO'' = Some p'
     \<and> p_quantity p' = 2 \<and> p_available_quantity p' = 2 \<and> p_avg_cost p' = 20
     \<and> p_leverage p' = 4 \<and> p_side p' = Some ''LONG''"
  using open_overwrites_unleveraged [where side = "''long''" and leverage = 4 and quantity = 2
      and prm = example_params and get_last_price = "\<lambda>s m. NoPrice" and symbol = "''ETH/USDT''"
      and order_type = "''LIMIT''" and price = "Some 20" and exec_price = 20
      and db = example_ledger and p = example_spot and now = 0 and name = "''Ether''"]
  by (simp add: example_ledger_def example_params_def example_spot_def example_long_def
      upper_def crypto_exec_price_def calc_crypto_fee_def query_position_def is_row_def)




section \<open>The scenarios, evaluated\<close>

lemmas model_defs =
  place_and_execute_crypto_def crypto_fill_def crypto_branch_def crypto_exec_price_def
  open_position_def close_position_def close_leveraged_def close_spot_def add_to_position_def
  charge_interest_def calculate_position_interest_def calc_crypto_fee_def set_position_def
  new_crypto_position_def
  place_and_execute_astock_def place_and_execute_mt5_order_def stock_fill_def stock_branch_def
  astock_exec_price_def mt5_exec_price_def calc_astock_fee_def calc_cn_fee_def average_in_def
  new_stock_position_def
  ASTOCK_MIN_COMMISSION_def ASTOCK_COMMISSION_RATE_def ASTOCK_STAMP_TAX_RATE_def
  ASTOCK_MIN_ORDER_QUANTITY_def ASTOCK_LOT_SIZE_def
  CN_MIN_ORDER_QUANTITY_def CN_COMMISSION_RATE_def CN_MIN_COMMISSION_def CN_STAMP_TAX_RATE_def
  CN_TRANSFER_FEE_RATE_def
  write_back_def query_position_def is_row_def upper_def py_int_def Let_def

lemmas scenario_defs =
  example_params_def example_long_def example_spot_def example_ledger_def cn_ledger_def

lemma astock_buy_eval:
  "astock_buy = Returned
     \<lparr>l_account = \<lparr>acc_id = 1, current_cash = 98995, margin_used = 0,
                    maintenance_margin_ratio = 1 / 2\<rparr>,
      l_positions =
        [\<lparr>p_account_id = 1, p_symbol = ''600000'', p_name = ''SPDB'', p_market = ''ASTOCK'',
          p_quantity = 100, p_available_quantity = 100, p_avg_cost = 10, p_leverage = 1,
          p_side = None, p_accumulated_interest = 0, p_last_interest_time = None\<rparr>],
      l_orders =
        [\<lparr>o_account_id = 1, o_symbol = ''600000'', o_name = ''SPDB'', o_market = ''ASTOCK'',
          o_side = ''BUY'', o_order_type = ''LIMIT'', o_price = Some 10, o_quantity = 100,
          o_leverage = 1, o_filled_quantity = 100, o_status = ''FILLED''\<rparr>],
      l_trades =
        [\<lparr>t_account_id = 1, t_symbol = ''600000'', t_name = ''SPDB'', t_market = ''ASTOCK'',
          t_side = ''BUY'', t_price = 10, t_quantity = 100, t_commission = 5, t_taker_fee = 0,
          t_interest_charged = 0\<rparr>]\<rparr>"
  by (simp add: astock_buy_def scenario_defs model_defs)

lemma mt5_buy_eval:
  "mt5_buy = Returned
     \<lparr>l_account = \<lparr>acc_id = 1, current_cash = 4949749 / 50, margin_used = 0,
                    maintenance_margin_ratio = 1 / 2\<rparr>,
      l_positions =
        [\<lparr>p_account_id = 1, p_symbol = ''600000'', p_name = ''SPDB'', p_market = ''CN'',
          p_quantity = 100, p_available_quantity = 100, p_avg_cost = 10, p_leverage = 1,
          p_side = None, p_accumulated_interest = 0, p_last_interest_time = None\<rparr>],
      l_orders =
        [\<lparr>o_account_id = 1, o_symbol = ''600000'', o_name = ''SPDB'', o_market = ''CN'',
          o_side = ''BUY'', o_order_type = ''LIMIT'', o_price = Some 10, o_quantity = 100,
          o_leverage = 1, o_filled_quantity = 100, o_status = ''FILLED''\<rparr>],
      l_trades =
        [\<lparr>t_account_id = 1, t_symbol = ''600000'', t_name = ''SPDB'', t_market = ''CN'',
          t_side = ''BUY'', t_price = 10, t_quantity = 100, t_commission = 251 / 50,
          t_taker_fee = 0, t_interest_charged = 0\<rparr>]\<rparr>"
  by (simp add: mt5_buy_def scenario_defs model_defs)

text \<open>
  C1, as stated, fails on the A-share executor: it has no transfer fee, so the fee on the
  trade is 5, not 5.02, and the cash left is 98995, not 98994.98.
\<close>

theorem astock_buy_has_no_transfer_fee:
  "\<not> (t_commission (last (l_trades (final astock_buy)))
        + t_taker_fee (last (l_trades (final astock_buy))) = 5 + 2 / 100
      \<and> current_cash (l_account (final astock_buy)) = 9899498 / 100)"
  by (simp add: astock_buy_eval)

text \<open>
  C1, amended. The A-share executor charges the commission of 5 and nothing else: the cash
  left is 98995, the position is 100 shares at an average cost of 10.00, the order is FILLED.
  The fee of 5.02, with the transfer fee of 0.02, and the cash of 98994.98 are those of the
  MT5 executor on the CN market, for the same order and the same position.
\<close>

theorem astock_buy_scenario:
  "(\<exists>db ord tr pos.
      astock_buy = Returned db \<and> l_orders db = [ord] \<and> l_trades db = [tr] \<and> l_positions db = [pos]
      \<and> t_commission tr = 5 \<and> t_taker_fee tr = 0
      \<and> current_cash (l_account db) = 98995
      \<and> p_quantity pos = 100 \<and> p_avg_cost pos = 10 \<and> o_status ord = ''FILLED'')
   \<and> (\<exists>db ord tr pos.
      mt5_buy = Returned db \<and> l_orders db = [ord] \<and> l_trades db = [tr] \<and> l_positions db = [pos]
      \<and> t_commission tr = 5 + 2 / 100 \<and> t_taker_fee tr = 0
      \<and> current_cash (l_account db) = 9899498 / 100
      \<and> p_quantity pos = 100 \<and> p_avg_cost pos = 10 \<and> o_status ord = ''FILLED'')"
  by (simp add: astock_buy_eval mt5_buy_eval)

text \<open>
  C5, at the scenario \<open>short_against_long\<close>. The order is refused as conflicting, but by then
  the margin of 50 and the fee of 0.1 have left the cash, the margin has been added to the
  margin in use, and the interest of 0.016 has been booked on the position and taken from
  the cash: 1000 has become 949.884, and 40 has become 90.
\<close>

theorem conflicting_open_changes_account:
  "raised short_against_long = Some ConflictingPosition
   \<and> current_cash (l_account example_ledger) = 1000
   \<and> current_cash (l_account (final short_against_long)) = 949884 / 1000
   \<and> margin_used (l_account example_ledger) = 40
   \<and> margin_used (l_account (final short_against_long)) = 90
   \<and> query_position (l_positions example_ledger) 1 ''BTC/USDT'' ''CRYPTO'' = Some example_long
   \<and> query_position (l_positions (final short_against_long)) 1 ''BTC/USDT'' ''CRYPTO''
       = Some (example_long\<lparr>p_accumulated_interest := 16 / 1000\<rparr>)"
  by (simp add: short_against_long_def scenario_defs model_defs)

lemma market_order_without_price:
  assumes "q = NoPrice \<or> q = OracleRaises"
  shows "get_last_price symbol ''CRYPTO'' = q \<Longrightarrow> 1 \<le> leverage \<Longrightarrow>
         leverage \<le> CRYPTO_MAX_LEVERAGE prm \<Longrightarrow> CRYPTO_MIN_ORDER_QUANTITY prm \<le> quantity \<Longrightarrow>
         \<exists>e. place_and_execute_crypto prm get_last_price now db symbol name side ''MARKET'' price
                quantity leverage = Raised e db"
    and "get_last_price symbol ''ASTOCK'' = q \<Longrightarrow> shares mod ASTOCK_LOT_SIZE = 0 \<Longrightarrow>
         ASTOCK_MIN_ORDER_QUANTITY \<le> shares \<Longrightarrow>
         \<exists>e. place_and_execute_astock get_last_price db symbol name side ''MARKET'' price shares
                use_ths = Raised e db"
  using assms
  by (auto simp: place_and_execute_crypto_def crypto_exec_price_def place_and_execute_astock_def
      astock_exec_price_def split: option.splits)

text \<open>
  C6, at the scenarios \<open>crypto_long_at_zero\<close> and \<open>astock_buy_at_zero\<close>. A market order
  whose oracle raises or gives nothing is refused before any row is written, as the lemma
  above says. One whose oracle answers 0 is not refused by either executor: the order is
  FILLED at price 0 and the position is opened at an average cost of 0.
\<close>

theorem market_order_filled_at_zero:
  "(\<exists>db ord.
      crypto_long_at_zero = Returned db \<and> l_orders db = [ord]
      \<and> o_status ord = ''FILLED'' \<and> o_price ord = Some 0 \<and> o_filled_quantity ord = 1
      \<and> map_option p_avg_cost (query_position (l_positions db) 1 ''SOL/USDT'' ''CRYPTO'') = Some 0
      \<and> map_option p_quantity (query_position (l_positions db) 1 ''SOL/USDT'' ''CRYPTO'') = Some 1)
   \<and> (\<exists>db ord.
      astock_buy_at_zero = Returned db \<and> l_orders db = [ord]
      \<and> o_status ord = ''FILLED'' \<and> o_price ord = Some 0 \<and> o_filled_quantity ord = 100
      \<and> map_option p_avg_cost (query_position (l_positions db) 1 ''600000'' ''ASTOCK'') = Some 0
      \<and> map_option p_quantity (query_position (l_positions db) 1 ''600000'' ''ASTOCK'') = Some 100)"
  by (simp add: crypto_long_at_zero_def astock_buy_at_zero_def scenario_defs model_defs)

section \<open>Orders refused after the flush\<close>

lemma decimal_of_quote_error:
  "decimal_of_quote q = Inl e \<Longrightarrow> e = DecimalConversion \<or> e = OracleFailure"
  by (cases q) auto

lemma crypto_exec_price_error:
  "crypto_exec_price get_last_price symbol order_type price = Inl e \<Longrightarrow>
   e = DecimalConversion \<or> e = OracleFailure"
  by (auto simp: crypto_exec_price_def split: option.splits if_splits dest: decimal_of_quote_error)

lemma astock_exec_price_error:
  "astock_exec_price get_last_price symbol order_type price = Inl e \<Longrightarrow>
   e = DecimalConversion \<or> e = OracleFailure"
  by (auto simp: astock_exec_price_def split: option.splits if_splits dest: decimal_of_quote_error)

lemma crypto_fill_raised_order:
  "crypto_fill prm now db symbol name side_u order_type exec_price quantity leverage = Raised e s \<Longrightarrow>
   \<exists>ord. l_orders s = l_orders db @ [ord] \<and> o_status ord = ''PENDING'' \<and> o_filled_quantity ord = 0"
  by (auto simp: crypto_fill_def Let_def write_back_def split: sum.splits prod.splits)

lemma stock_fill_raised_order:
  "stock_fill db symbol name market side_u order_type exec_price quantity total_fee c t = Raised e s \<Longrightarrow>
   \<exists>ord. l_orders s = l_orders db @ [ord] \<and> o_status ord = ''PENDING'' \<and> o_filled_quantity ord = 0"
  by (auto simp: stock_fill_def Let_def write_back_def split: sum.splits prod.splits)

text \<open>
  C7, as stated, fails at the scenario \<open>astock_buy_too_much\<close>: the order is refused for
  want of cash after its row was flushed, and the row is left PENDING, not REJECTED.
\<close>

theorem refused_order_not_marked_rejected:
  "raised astock_buy_too_much = Some InsufficientCash
   \<and> map o_status (l_orders (final astock_buy_too_much)) = [''PENDING'']
   \<and> o_status (last (l_orders (final astock_buy_too_much))) \<noteq> ''REJECTED''"
  by (simp add: astock_buy_too_much_def scenario_defs model_defs)

text \<open>
  C7, amended. When the A-share or the crypto executor raises for want of cash or of
  position, the order row it flushed is the last order of the session, with status PENDING
  and nothing filled; no executor ever writes REJECTED.
\<close>

theorem rejected_order_stays_pending:
  "(place_and_execute_astock get_last_price db symbol name side order_type price shares use_ths
      = Raised e s
    \<and> (e = InsufficientCash \<or> e = InsufficientPosition)
    \<longrightarrow> (\<exists>ord. l_orders s = l_orders db @ [ord] \<and> o_status ord = ''PENDING''
              \<and> o_filled_quantity ord = 0))
   \<and> (place_and_execute_crypto prm get_last_price now db symbol name side order_type price
        quantity leverage = Raised e s
      \<and> (e = InsufficientCash \<or> e = InsufficientCashForInterest \<or> e = NoPositionToClose
           \<or> e = CloseExceedsPosition \<or> e = InsufficientPosition)
      \<longrightarrow> (\<exists>ord. l_orders s = l_orders db @ [ord] \<and> o_status ord = ''PENDING''
                \<and> o_filled_quantity ord = 0))"
proof (intro conjI impI)
  assume a: "place_and_execute_astock get_last_price db symbol name side order_type price shares use_ths
      = Raised e s \<and> (e = InsufficientCash \<or> e = InsufficientPosition)"
  then obtain exec_price c t where
    "stock_fill db symbol name ''ASTOCK'' (upper side) order_type exec_price (of_int shares) (c + t) c t
       = Raised e s"
    by (auto simp: place_and_execute_astock_def Let_def
        split: if_splits sum.splits prod.splits dest: astock_exec_price_error)
  then show "\<exists>ord. l_orders s = l_orders db @ [ord] \<and> o_status ord = ''PENDING''
              \<and> o_filled_quantity ord = 0"
    by (rule stock_fill_raised_order)
next
  assume a: "place_and_execute_crypto prm get_last_price now db symbol name side order_type price
        quantity leverage = Raised e s
      \<and> (e = InsufficientCash \<or> e = InsufficientCashForInterest \<or> e = NoPositionToClose
           \<or> e = CloseExceedsPosition \<or> e = InsufficientPosition)"
  then obtain exec_price where
    "crypto_fill prm now db symbol name (upper side) order_type exec_price quantity leverage = Raised e s"
    by (auto simp: place_and_execute_crypto_def
        split: if_splits sum.splits dest: crypto_exec_price_error)
  then show "\<exists>ord. l_orders s = l_orders db @ [ord] \<and> o_status ord = ''PENDING''
              \<and> o_filled_quantity ord = 0"
    by (rule crypto_fill_raised_order)
qed


theorem rejected_order_stays_pending_witness:
  "(\<exists>ord. l_orders (final astock_buy_too_much) = l_orders cn_ledger @ [ord]
          \<and> o_status ord = ''PENDING'' \<and> o_filled_quantity ord = 0)
   \<and> (\<exists>ord. l_orders (final crypto_sell_nothing) = l_orders example_ledger @ [ord]
          \<and> o_status ord = ''PENDING'' \<and> o_filled_quantity ord = 0)"
proof -
  have a: "place_and_execute_astock (\<lambda>s m. NoPrice) cn_ledger ''600000'' ''SPDB'' ''BUY'' ''LIMIT''
             (Some 10) 100000 False = Raised InsufficientCash (final astock_buy_too_much)"
    by (simp add: astock_buy_too_much_def scenario_defs model_defs)
  have b: "place_and_execute_crypto example_params (\<lambda>s m. NoPrice) 0 example_ledger
             ''SOL/USDT'' ''Solana'' ''SELL'' ''LIMIT'' (Some 10) 1 1
           = Raised NoPositionToClose (final crypto_sell_nothing)"
    by (simp add: crypto_sell_nothing_def scenario_defs model_defs)
  show ?thesis
    using rejected_order_stays_pending [where e = InsufficientCash
        and s = "final astock_buy_too_much" and db = cn_ledger
        and get_last_price = "\<lambda>s m. NoPrice" and symbol = "''600000''" and name = "''SPDB''"
        and side = "''BUY''" and order_type = "''LIMIT''" and price = "Some 10"
        and shares = 100000 and use_ths = False]
      rejected_order_stays_pending [where e = NoPositionToClose
        and s = "final crypto_sell_nothing" and db = example_ledger and prm = example_params
        and get_last_price = "\<lambda>s m. NoPrice" and symbol = "''SOL/USDT''" and name = "''Solana''"
        and side = "''SELL''" and order_type = "''LIMIT''" and price = "Some 10"
        and quantity = 1 and leverage = 1 and now = 0]
      a b
    by simp
qed

section \<open>Selling more than is held\<close>










section \<open>The sweep of the margin monitor\<close>

lemma is_row_key: "is_row aid symbol market p \<longleftrightarrow> row_key p = (aid, symbol, market)"
  by (auto simp: is_row_def row_key_def)

lemma query_distinct:
  assumes "distinct (map row_key ps)" "i < length ps" "row_key (ps ! i) = (aid, symbol, market)"
  shows "query_position ps aid symbol market = Some (ps ! i)"
  using assms
proof (induction ps arbitrary: i)
  case Nil
  then show ?case by simp
next
  case (Cons p ps)
  show ?case
  proof (cases i)
    case 0
    then show ?thesis using Cons.prems by (simp add: query_position_def is_row_key)
  next
    case (Suc j)
    then have "ps ! j \<in> set ps" using Cons.prems by simp
    then have "row_key (ps ! j) \<in> row_key ` set ps" by (rule imageI)
    then have "row_key p \<noteq> row_key (ps ! j)" using Cons.prems by auto
    then have "\<not> is_row aid symbol market p" using Cons.prems Suc by (simp add: is_row_key)
    moreover have "query_position ps aid symbol market = Some (ps ! j)"
      using Cons.IH [of j] Cons.prems Suc by simp
    ultimately show ?thesis using Suc by (simp add: query_position_def)
  qed
qed

lemma store_distinct:
  assumes "distinct (map row_key ps)" "i < length ps" "row_key (ps ! i) = (aid, symbol, market)"
  shows "store_position ps aid symbol market p' = ps[i := p']"
  using assms
proof (induction ps arbitrary: i)
  case Nil
  then show ?case by simp
next
  case (Cons p ps)
  show ?case
  proof (cases i)
    case 0
    then show ?thesis using Cons.prems by (simp add: is_row_key)
  next
    case (Suc j)
    then have "ps ! j \<in> set ps" using Cons.prems by simp
    then have "row_key (ps ! j) \<in> row_key ` set ps" by (rule imageI)
    then have "row_key p \<noteq> row_key (ps ! j)" using Cons.prems by auto
    then have "\<not> is_row aid symbol market p" using Cons.prems Suc by (simp add: is_row_key)
    moreover have "store_position ps aid symbol market p' = ps[j := p']"
      using Cons.IH [of j] Cons.prems Suc by simp
    ultimately show ?thesis using Suc by simp
  qed
qed

lemma engine_close_result:
  assumes "engine_close prm now a p side_u px q = Inr (a', p', fees, interest)"
  shows "acc_id a' = acc_id a \<and> row_key p' = row_key p
         \<and> (q = p_quantity p \<longrightarrow> p_quantity p' = 0 \<and> p_side p' = None)"
  using assms
  by (auto simp: engine_close_def Let_def row_key_def split: if_splits)

lemma set_last_order_fields:
  "l_account (set_last_order db f) = l_account db"
  "l_positions (set_last_order db f) = l_positions db"
  "l_trades (set_last_order db f) = l_trades db"
  "l_orders db = os @ [ord] \<Longrightarrow> l_orders (set_last_order db f) = os @ [f ord]"
  by (simp_all add: set_last_order_def)

lemma closes_liquidation_order:
  "closes_position p ((liquidation_order a p)\<lparr>o_status := st\<rparr>)"
  "closes_position p ((liquidation_order a p)\<lparr>o_filled_quantity := f, o_status := st\<rparr>)"
  by (simp_all add: closes_position_def liquidation_order_def)

lemma engine_step:
  assumes d: "distinct (map row_key (l_positions db))"
    and i: "i < length (l_positions db)"
    and own: "p_account_id (l_positions db ! i) = acc_id (l_account db)"
    and ex: "check_and_execute_order prm get_last_price now
               (db\<lparr>l_orders := l_orders db @ [liquidation_order (l_account db) (l_positions db ! i)]\<rparr>)
               (liquidation_order (l_account db) (l_positions db ! i)) = (executed, db2)"
  shows "\<exists>ord. l_orders db2 = l_orders db @ [ord]
           \<and> closes_position (l_positions db ! i) ord
           \<and> acc_id (l_account db2) = acc_id (l_account db)
           \<and> map row_key (l_positions db2) = map row_key (l_positions db)
           \<and> (\<forall>j < length (l_positions db). j \<noteq> i \<longrightarrow> l_positions db2 ! j = l_positions db ! j)
           \<and> (o_status ord = ''FILLED'' \<longrightarrow>
                p_quantity (l_positions db2 ! i) = 0 \<and> p_side (l_positions db2 ! i) = None)
           \<and> (o_status ord \<noteq> ''FILLED'' \<longrightarrow> l_positions db2 ! i = l_positions db ! i)"
proof -
  let ?p = "l_positions db ! i"
  let ?ord = "liquidation_order (l_account db) ?p"
  let ?db1 = "db\<lparr>l_orders := l_orders db @ [?ord]\<rparr>"
  have key: "row_key ?p = (o_account_id ?ord, o_symbol ?ord, o_market ?ord)"
    using own by (simp add: row_key_def liquidation_order_def)
  have q: "query_position (l_positions db) (o_account_id ?ord) (o_symbol ?ord) (o_market ?ord) = Some ?p"
    by (rule query_distinct [OF d i key])
  have st: "store_position (l_positions db) (o_account_id ?ord) (o_symbol ?ord) (o_market ?ord) p'
              = (l_positions db)[i := p']" for p'
    by (rule store_distinct [OF d i key])
  have qty: "o_quantity ?ord = p_quantity ?p" by (simp add: liquidation_order_def)
  have rej: ?thesis
    if "l_orders db2 = l_orders db @ [?ord\<lparr>o_status := ''REJECTED''\<rparr>]"
      and "l_account db2 = l_account db" and "l_positions db2 = l_positions db"
    using that by (auto simp: closes_liquidation_order)
  have o1: "l_orders ?db1 = l_orders db @ [?ord]" by simp
  show ?thesis
  proof (cases "engine_price get_last_price ?ord")
    case (Inl r)
    then have "db2 = set_last_order ?db1 (\<lambda>ord. ord\<lparr>o_status := ''REJECTED''\<rparr>)"
      using ex by (simp add: check_and_execute_order_def)
    then show ?thesis
      by (intro rej) (simp_all add: set_last_order_fields(1-3) set_last_order_fields(4) [OF o1])
  next
    case (Inr px)
    show ?thesis
    proof (cases "engine_close prm now (l_account db) ?p (o_side ?ord) px (o_quantity ?ord)")
      case (Inl r)
      then have "db2 = set_last_order ?db1 (\<lambda>ord. ord\<lparr>o_status := ''REJECTED''\<rparr>)"
        using ex Inr q by (simp add: check_and_execute_order_def)
      then show ?thesis
        by (intro rej) (simp_all add: set_last_order_fields(1-3) set_last_order_fields(4) [OF o1])
    next
      case (Inr res)
      then obtain a' p' fees interest where
        res: "engine_close prm now (l_account db) ?p (o_side ?ord) px (o_quantity ?ord)
                = Inr (a', p', fees, interest)"
        by (cases res) auto
      note r = engine_close_result [OF res]
      have db2: "db2 = snd (check_and_execute_order prm get_last_price now ?db1 ?ord)"
        using ex by simp
      have "l_orders db2 = l_orders db @ [?ord\<lparr>o_filled_quantity := o_quantity ?ord, o_status := ''FILLED''\<rparr>]"
        and "l_account db2 = a'" and "l_positions db2 = (l_positions db)[i := p']"
        unfolding db2 using \<open>engine_price get_last_price ?ord = Inr px\<close> q res st
        by (simp_all add: check_and_execute_order_def set_last_order_def Let_def)
      then show ?thesis
        using r i qty by (auto simp: closes_liquidation_order map_update list_update_same_conv)
    qed
  qed
qed


lemma settled_transfer:
  assumes "settled db1 db' i ord" "l_positions db1 ! i = l_positions db ! i"
  shows "settled db db' i ord"
  using assms by (simp add: settled_def)

lemma liquidate_positions_settles:
  assumes "distinct idxs"
    and "\<forall>i \<in> set idxs. i < length (l_positions db)
           \<and> is_leveraged_open (acc_id (l_account db)) (l_positions db ! i)"
    and "distinct (map row_key (l_positions db))"
  shows "\<exists>new.
           l_orders (liquidate_positions (check_and_execute_order prm get_last_price now) db idxs)
             = l_orders db @ new
         \<and> list_all2
             (settled db (liquidate_positions (check_and_execute_order prm get_last_price now) db idxs))
             idxs new
         \<and> map row_key
             (l_positions (liquidate_positions (check_and_execute_order prm get_last_price now) db idxs))
             = map row_key (l_positions db)
         \<and> (\<forall>j < length (l_positions db). j \<notin> set idxs \<longrightarrow>
               l_positions (liquidate_positions (check_and_execute_order prm get_last_price now) db idxs) ! j
                 = l_positions db ! j)"
  using assms
proof (induction idxs arbitrary: db)
  case Nil
  then show ?case by simp
next
  case (Cons i idxs)
  let ?E = "check_and_execute_order prm get_last_price now"
  let ?p = "l_positions db ! i"
  let ?ord = "liquidation_order (l_account db) ?p"
  have i: "i < length (l_positions db)" and lo: "is_leveraged_open (acc_id (l_account db)) ?p"
    using Cons.prems(2) by simp_all
  have pos: "\<not> p_quantity ?p \<le> 0" and own: "p_account_id ?p = acc_id (l_account db)"
    using lo by (simp_all add: is_leveraged_open_def)
  obtain executed db2 where ex: "?E (db\<lparr>l_orders := l_orders db @ [?ord]\<rparr>) ?ord = (executed, db2)"
    by (cases "?E (db\<lparr>l_orders := l_orders db @ [?ord]\<rparr>) ?ord")
  have unfold: "liquidate_positions ?E db (i # idxs) = liquidate_positions ?E db2 idxs"
    using pos ex by (simp add: Let_def)
  obtain ord where step:
      "l_orders db2 = l_orders db @ [ord]"
      "closes_position ?p ord"
      "acc_id (l_account db2) = acc_id (l_account db)"
      "map row_key (l_positions db2) = map row_key (l_positions db)"
      "\<forall>j < length (l_positions db). j \<noteq> i \<longrightarrow> l_positions db2 ! j = l_positions db ! j"
      "o_status ord = ''FILLED'' \<longrightarrow>
         p_quantity (l_positions db2 ! i) = 0 \<and> p_side (l_positions db2 ! i) = None"
      "o_status ord \<noteq> ''FILLED'' \<longrightarrow> l_positions db2 ! i = l_positions db ! i"
    using engine_step [OF Cons.prems(3) i own ex] by blast
  have len: "length (l_positions db2) = length (l_positions db)"
    using step(4) by (metis length_map)
  have rest: "\<forall>k \<in> set idxs. k < length (l_positions db2)
                \<and> is_leveraged_open (acc_id (l_account db2)) (l_positions db2 ! k)"
    using Cons.prems(1,2) step(3,5) len by auto
  have d2: "distinct (map row_key (l_positions db2))"
    using Cons.prems(3) step(4) by simp
  let ?db' = "liquidate_positions ?E db2 idxs"
  obtain new where ih:
      "l_orders ?db' = l_orders db2 @ new"
      "list_all2 (settled db2 ?db') idxs new"
      "map row_key (l_positions ?db') = map row_key (l_positions db2)"
      "\<forall>j < length (l_positions db2). j \<notin> set idxs \<longrightarrow> l_positions ?db' ! j = l_positions db2 ! j"
    using Cons.IH [OF _ rest d2] Cons.prems(1) by auto
  have inotin: "i \<notin> set idxs" using Cons.prems(1) by simp
  have same_i: "l_positions ?db' ! i = l_positions db2 ! i"
    using ih(4) i len inotin by simp
  have head: "settled db ?db' i ord"
    using step(2,6,7) same_i by (simp add: settled_def)
  have tail: "list_all2 (settled db ?db') idxs new"
  proof (rule list.rel_mono_strong [OF ih(2)])
    fix k ord'
    assume k: "k \<in> set idxs" and s: "settled db2 ?db' k ord'"
    have "k \<noteq> i" using k inotin by auto
    moreover have "k < length (l_positions db)" using Cons.prems(2) k by simp
    ultimately have "l_positions db2 ! k = l_positions db ! k" using step(5) by simp
    with s show "settled db ?db' k ord'" by (rule settled_transfer)
  qed
  have frame: "\<forall>j < length (l_positions db). j \<notin> set (i # idxs) \<longrightarrow>
                 l_positions ?db' ! j = l_positions db ! j"
    using ih(4) step(5) len by simp
  show ?case
    unfolding unfold
    using ih(1,3) step(1,4) head tail frame
    by (intro exI [of _ "ord # new"]) simp
qed

lemma leveraged_open_props:
  "distinct (leveraged_open db)"
  "\<forall>i \<in> set (leveraged_open db). i < length (l_positions db)
      \<and> is_leveraged_open (acc_id (l_account db)) (l_positions db ! i)"
  by (simp_all add: leveraged_open_def)

text \<open>
  C2, amended. On an account with a positive margin in use whose equity over that margin is
  below the maintenance ratio, and whose position rows have distinct keys, one sweep appends
  exactly one order per open leveraged position, in their order: a market order for the
  position's symbol and full quantity, \<^verbatim>\<open>SELL\<close> for a long position and \<^verbatim>\<open>BUY\<close> otherwise. A
  position whose order the engine filled has quantity 0 and no side after the sweep; a
  position whose order the engine rejected is as it was before the sweep.
\<close>

theorem margin_sweep_liquidates:
  assumes "margin_used (l_account db) > 0"
    and "account_equity get_last_price db / margin_used (l_account db)
           < maintenance_margin_ratio (l_account db)"
    and "distinct (map row_key (l_positions db))"
  shows "\<exists>new.
           l_orders (margin_sweep prm get_last_price now db) = l_orders db @ new
         \<and> list_all2 (settled db (margin_sweep prm get_last_price now db)) (leveraged_open db) new"
proof (cases "leveraged_open db = []")
  case True
  then show ?thesis by (simp add: margin_sweep_def check_account_margin_def)
next
  case False
  then have "margin_sweep prm get_last_price now db
      = liquidate_positions (check_and_execute_order prm get_last_price now) db (leveraged_open db)"
    using assms(1,2) by (simp add: margin_sweep_def check_account_margin_def Let_def)
  then show ?thesis
    using liquidate_positions_settles [OF leveraged_open_props assms(3), of prm get_last_price now]
    by auto
qed

lemmas sweep_defs =
  margin_sweep_def check_account_margin_def leveraged_open_def is_leveraged_open_def
  account_equity_def position_pnl_def
  liquidation_order_def check_and_execute_order_def engine_price_def engine_close_def
  set_last_order_def calculate_position_interest_def query_position_def is_row_def Let_def
  margin_call_ledger_def margin_call_prices_def example_params_def

theorem margin_sweep_liquidates_witness:
  "leveraged_open margin_call_ledger = [0, 1]
   \<and> (\<exists>new. l_orders sweep_at_once = l_orders margin_call_ledger @ new
         \<and> list_all2 (settled margin_call_ledger sweep_at_once) [0, 1] new)
   \<and> map o_status (l_orders sweep_at_once) = [''FILLED'', ''FILLED'']
   \<and> map p_quantity (l_positions sweep_at_once) = [0, 0]
   \<and> map p_side (l_positions sweep_at_once) = [None, None]"
proof -
  have o: "leveraged_open margin_call_ledger = [0, 1]"
    by (simp add: leveraged_open_def is_leveraged_open_def margin_call_ledger_def)
  have m: "margin_used (l_account margin_call_ledger) > 0"
    by (simp add: margin_call_ledger_def)
  have e: "account_equity margin_call_prices margin_call_ledger
             / margin_used (l_account margin_call_ledger)
           < maintenance_margin_ratio (l_account margin_call_ledger)"
    by (simp add: account_equity_def leveraged_open_def is_leveraged_open_def position_pnl_def
        margin_call_ledger_def margin_call_prices_def)
  have d: "distinct (map row_key (l_positions margin_call_ledger))"
    by (simp add: margin_call_ledger_def row_key_def)
  have c: "map o_status (l_orders sweep_at_once) = [''FILLED'', ''FILLED'']
           \<and> map p_quantity (l_positions sweep_at_once) = [0, 0]
           \<and> map p_side (l_positions sweep_at_once) = [None, None]"
    by (simp add: sweep_at_once_def sweep_defs)
  show ?thesis
    using margin_sweep_liquidates [OF m e d, of example_params 0] o c
    by (simp add: sweep_at_once_def)
qed

text \<open>
  C2, as stated, fails at the scenario \<open>sweep_later\<close>. The account is in a margin call, with
  an equity of -40 against a margin of 110 and a maintenance ratio of one half, and both its
  positions are open and leveraged. A thousand hours of interest on the long position come
  to 90, which the cash of 10 cannot cover: the engine rejects its closing order, and after
  the sweep the position still has quantity 1 and side LONG.
\<close>

theorem sweep_leaves_position_open:
  "margin_used (l_account margin_call_ledger) > 0
   \<and> account_equity margin_call_prices margin_call_ledger / margin_used (l_account margin_call_ledger)
       < maintenance_margin_ratio (l_account margin_call_ledger)
   \<and> leveraged_open margin_call_ledger = [0, 1]
   \<and> map o_status (l_orders sweep_later) = [''REJECTED'', ''FILLED'']
   \<and> p_quantity (l_positions sweep_later ! 0) = 1
   \<and> p_side (l_positions sweep_later ! 0) = Some ''LONG''"
  by (simp add: sweep_later_def sweep_defs)

end
